theory Spec2Isabelle
  imports Complex_Main
begin

section \<open>JavaScript values\<close>

text \<open>
  The handlers of \<^verbatim>\<open>server.js\<close> see request bodies and provider replies as parsed
  JSON. A number is an IEEE double: every finite double is a rational (the two zeros
  coincide, both are falsy), and the three special values are kept apart.
  An object is the list of its members in textual order; \<^verbatim>\<open>JSON.parse\<close> keeps the
  last of two members with the same key.
\<close>

datatype jsnum = Fin rat | PosInf | NegInf | NaN

datatype json =
    JNull
  | JBool bool
  | JNum jsnum
  | JStr string
  | JArr "json list"
  | JObj "(string \<times> json) list"

text \<open>\<^verbatim>\<open>!!v\<close>: the falsy values are null, false, 0, NaN and the empty string.\<close>

fun truthy :: "json \<Rightarrow> bool" where
  "truthy JNull = False"
| "truthy (JBool b) = b"
| "truthy (JNum (Fin r)) = (r \<noteq> 0)"
| "truthy (JNum PosInf) = True"
| "truthy (JNum NegInf) = True"
| "truthy (JNum NaN) = False"
| "truthy (JStr s) = (s \<noteq> [])"
| "truthy (JArr xs) = True"
| "truthy (JObj kvs) = True"

text \<open>
  \<^verbatim>\<open>v.k\<close> for a key that no prototype defines: the member of an object, and
  \<^verbatim>\<open>undefined\<close> (\<open>None\<close>) on every other value that is not null.
\<close>

fun get_prop :: "json \<Rightarrow> string \<Rightarrow> json option" where
  "get_prop (JObj kvs) k = map_of (rev kvs) k"
| "get_prop v k = None"

text \<open>A string or \<^verbatim>\<open>undefined\<close>, as a query parameter or an environment variable is.\<close>

fun truthy_str :: "string option \<Rightarrow> bool" where
  "truthy_str None = False"
| "truthy_str (Some s) = (s \<noteq> [])"

text \<open>\<^verbatim>\<open>a || b\<close> where \<open>a\<close> is a string and \<open>b\<close> a string or \<^verbatim>\<open>undefined\<close>.\<close>

definition js_or :: "string \<Rightarrow> string option \<Rightarrow> string option" where
  "js_or a b = (if a \<noteq> [] then Some a else b)"

section \<open>HTTP responses and outbound calls\<close>

datatype body = Text string | Json json

record response =
  status :: nat
  payload :: body

text \<open>\<^verbatim>\<open>res.send(text)\<close> and \<^verbatim>\<open>res.json(v)\<close> answer 200 unless \<^verbatim>\<open>res.status\<close> was called.\<close>

definition send :: "nat \<Rightarrow> string \<Rightarrow> response" where
  "send code text = \<lparr>status = code, payload = Text text\<rparr>"

definition json_reply :: "json \<Rightarrow> response" where
  "json_reply v = \<lparr>status = 200, payload = Json v\<rparr>"

text \<open>One \<^verbatim>\<open>axios.post(url, data, {headers})\<close>.\<close>

record http_call =
  url :: string
  data :: json
  headers :: "(string \<times> string) list"

datatype error = DbError | HttpError

section \<open>The webhook receiver\<close>

text \<open>
  The receiver of the variant with the handshake (\<^verbatim>\<open>src/unnamed/part_000\<close>, lines 163-173):
  \<^verbatim>\<open>if (req.body && req.body.challenge) return res.json({ challenge: req.body.challenge });
  res.status(200).send("ok");\<close>
  \<open>None\<close> is a request without a parsed body.
\<close>

definition webhook_monday_challenge :: "json option \<Rightarrow> response" where
  "webhook_monday_challenge req_body =
     (case req_body of
        None \<Rightarrow> send 200 ''ok''
      | Some b \<Rightarrow>
          if truthy b then
            (case get_prop b ''challenge'' of
               None \<Rightarrow> send 200 ''ok''
             | Some c \<Rightarrow>
                 if truthy c then json_reply (JObj [(''challenge'', c)])
                 else send 200 ''ok'')
          else send 200 ''ok'')"

text \<open>
  The receiver of \<^verbatim>\<open>src/server/server.js\<close> (lines 152-156) and of
  \<^verbatim>\<open>src/unnamed/part_001\<close>: \<^verbatim>\<open>res.status(200).send('ok')\<close> for every body.
\<close>

definition webhook_monday :: "json option \<Rightarrow> response" where
  "webhook_monday req_body = send 200 ''ok''"

section \<open>The token store (\<^verbatim>\<open>src/server/db.js\<close>)\<close>

text \<open>
  Times are milliseconds since the epoch, as \<^verbatim>\<open>Date.now()\<close> counts them. A
  \<^verbatim>\<open>Date\<close> holds a time of at most 8.64e15 milliseconds in magnitude;
  \<^verbatim>\<open>new Date(ms)\<close> beyond that is the Invalid Date.
\<close>

datatype js_date = Date int | InvalidDate

definition new_Date :: "int \<Rightarrow> js_date" where
  "new_Date ms = (if \<bar>ms\<bar> \<le> 8640000000000000 then Date ms else InvalidDate)"

text \<open>
  One document of the \<^verbatim>\<open>tokens\<close> collection. A token is a string (the data model's
  opaque bearer string); \<^verbatim>\<open>updated_at\<close> is \<^verbatim>\<open>new Date()\<close>, the reading of the clock.
\<close>

record token_doc =
  service :: string
  access_token :: string
  refresh_token :: "string option"
  expires_at :: "js_date option"
  updated_at :: int

text \<open>
  The module's state: \<open>db\<close> tells whether the variable \<^verbatim>\<open>db\<close> holds a handle, and
  \<open>tokens\<close> is the collection behind it, which \<^verbatim>\<open>connectDB\<close> gives a unique index on
  \<^verbatim>\<open>service\<close>: a map from the service name to its one document.
\<close>

record db_state =
  db :: bool
  tokens :: "string \<rightharpoonup> token_doc"

text \<open>
  The process environment the code reads once, and the constants computed from it.
\<close>

record config =
  CLIENT_ID :: string
  CLIENT_SECRET :: string
  REDIRECT_URL :: string
  MONDAY_PUBLIC_URL :: "string option"
  PUBLIC_URL :: "string option"
  NGROK_URL :: "string option"
  MONGODB_URI :: "string option"

text \<open>
  \<^verbatim>\<open>connectDB\<close>: nothing to do with a handle or without \<^verbatim>\<open>MONGODB_URI\<close>; otherwise the
  driver connects and builds the index (\<open>conn_ok\<close> tells whether both succeed), and a
  failure is thrown again after \<^verbatim>\<open>db\<close> is reset.
\<close>

definition connectDB :: "config \<Rightarrow> bool \<Rightarrow> db_state \<Rightarrow> (error + unit) \<times> db_state" where
  "connectDB cfg conn_ok st =
     (if db st then (Inr (), st)
      else if \<not> truthy_str (MONGODB_URI cfg) then (Inr (), st)
      else if conn_ok then (Inr (), st\<lparr>db := True\<rparr>)
      else (Inl DbError, st\<lparr>db := False\<rparr>))"

text \<open>
  \<^verbatim>\<open>saveToken(service, access_token, refresh_token = null, expires_in = null)\<close>.
  \<open>now\<close> and \<open>now'\<close> are the two readings of the clock, \<open>wr_ok\<close> tells whether the
  driver's \<^verbatim>\<open>updateOne\<close> succeeds; a failed write leaves the collection as it was and
  is thrown. \<^verbatim>\<open>$set\<close> with \<^verbatim>\<open>upsert\<close> writes all five fields of the document.
  \<^verbatim>\<open>expires_in\<close> is a whole number of seconds, as the provider sends it; the sum
  \<^verbatim>\<open>Date.now() + expires_in * 1000\<close> is exact in doubles wherever it is a time a
  \<^verbatim>\<open>Date\<close> can hold.
\<close>

definition saveToken ::
  "db_state \<Rightarrow> bool \<Rightarrow> int \<Rightarrow> int \<Rightarrow> string \<Rightarrow> string \<Rightarrow> string option \<Rightarrow> int option
     \<Rightarrow> (error + token_doc option) \<times> db_state" where
  "saveToken st wr_ok now now' svc tok refresh expires_in =
     (if \<not> db st then (Inr None, st)
      else
        let doc = \<lparr>service = svc, access_token = tok, refresh_token = refresh,
                   expires_at = (case expires_in of
                                   None \<Rightarrow> None
                                 | Some n \<Rightarrow> if n \<noteq> 0 then Some (new_Date (now + n * 1000))
                                            else None),
                   updated_at = now'\<rparr>
        in if wr_ok then (Inr (Some doc), st\<lparr>tokens := (tokens st)(svc \<mapsto> doc)\<rparr>)
           else (Inl DbError, st))"

text \<open>
  \<^verbatim>\<open>getToken(service)\<close>: \<^verbatim>\<open>doc?.access_token || null\<close>. \<open>rd_ok\<close> tells whether the
  driver's \<^verbatim>\<open>findOne\<close> succeeds; a failed read is thrown.
\<close>

definition getToken :: "db_state \<Rightarrow> bool \<Rightarrow> string \<Rightarrow> error + string option" where
  "getToken st rd_ok svc =
     (if \<not> db st then Inr None
      else if \<not> rd_ok then Inl DbError
      else (case tokens st svc of
              None \<Rightarrow> Inr None
            | Some doc \<Rightarrow> if access_token doc \<noteq> [] then Inr (Some (access_token doc))
                          else Inr None))"

section \<open>The server (\<^verbatim>\<open>src/server/server.js\<close> and its two variants)\<close>

text \<open>
  The mutable state of the process: the variable \<^verbatim>\<open>mondayAccessToken\<close>, the setting
  \<^verbatim>\<open>process.env.MONDAY_ACCESS_TOKEN\<close>, the variable \<^verbatim>\<open>oauthToken\<close> of
  \<^verbatim>\<open>lib/monday.js\<close> that \<^verbatim>\<open>setToken\<close> writes, and the store.
\<close>

record server =
  mondayAccessToken :: string
  MONDAY_ACCESS_TOKEN :: "string option"
  oauthToken :: string
  store :: db_state

definition setToken :: "string \<Rightarrow> server \<Rightarrow> server" where
  "setToken token s = s\<lparr>oauthToken := token\<rparr>"

text \<open>
  \<^verbatim>\<open>mondayAccessToken || process.env.MONDAY_ACCESS_TOKEN\<close>, the read of the cached token
  that opens token resolution in \<^verbatim>\<open>/monday/create-webhook\<close>.
\<close>

definition currentToken :: "server \<Rightarrow> string option" where
  "currentToken s = js_or (mondayAccessToken s) (MONDAY_ACCESS_TOKEN s)"

subsection \<open>The OAuth callback\<close>

text \<open>
  The body of the provider's token response, \<^verbatim>\<open>resp.data\<close>, with the three members the
  handler reads; \<open>None\<close> is a member that is missing.
\<close>

record token_data =
  data_access_token :: "string option"
  data_refresh_token :: "string option"
  data_expires_in :: "int option"

definition token_request :: "config \<Rightarrow> string \<Rightarrow> http_call" where
  "token_request cfg code =
     \<lparr>url = ''https://auth.monday.com/oauth2/token'',
      data = JObj [(''code'', JStr code), (''client_id'', JStr (CLIENT_ID cfg)),
                   (''client_secret'', JStr (CLIENT_SECRET cfg)),
                   (''redirect_uri'', JStr (REDIRECT_URL cfg)),
                   (''grant_type'', JStr ''authorization_code'')],
      headers = []\<rparr>"

text \<open>\<^verbatim>\<open>v || null\<close> on a number that may be missing: zero is dropped too.\<close>

definition or_null_num :: "int option \<Rightarrow> int option" where
  "or_null_num v = (case v of None \<Rightarrow> None | Some n \<Rightarrow> if n \<noteq> 0 then Some n else None)"

definition or_null_str :: "string option \<Rightarrow> string option" where
  "or_null_str v = (if truthy_str v then v else None)"

text \<open>
  \<^verbatim>\<open>app.get('/monday/oauth/callback')\<close> of \<^verbatim>\<open>server.js\<close>, lines 50-93. \<open>code\<close> is
  \<^verbatim>\<open>req.query.code\<close>; \<open>reply\<close> is what \<^verbatim>\<open>axios.post\<close> gives: \<open>Inl\<close> when it throws,
  \<open>Inr None\<close> a response without a body, \<open>Inr (Some d)\<close> a body. The result is the
  response, the calls made to the provider, and the new state.
\<close>

definition oauth_callback ::
  "config \<Rightarrow> server \<Rightarrow> string option \<Rightarrow> error + token_data option \<Rightarrow> bool \<Rightarrow> int \<Rightarrow> int
     \<Rightarrow> response \<times> http_call list \<times> server" where
  "oauth_callback cfg s code reply wr_ok now now' =
     (case code of
        None \<Rightarrow> (send 400 ''No code query parameter present.'', [], s)
      | Some c \<Rightarrow>
          if c = [] then (send 400 ''No code query parameter present.'', [], s)
          else
            (case reply of
               Inl e \<Rightarrow> (send 500 ''OAuth token exchange failed. See server logs.'',
                         [token_request cfg c], s)
             | Inr None \<Rightarrow>
                 (send 500 ''Token exchange did not return access_token. Check server logs.'',
                  [token_request cfg c], s)
             | Inr (Some d) \<Rightarrow>
                 (case data_access_token d of
                    None \<Rightarrow>
                      (send 500 ''Token exchange did not return access_token. Check server logs.'',
                       [token_request cfg c], s)
                  | Some t \<Rightarrow>
                      if t = [] then
                        (send 500 ''Token exchange did not return access_token. Check server logs.'',
                         [token_request cfg c], s)
                      else
                        let s1 = s\<lparr>mondayAccessToken := t\<rparr>;
                            s2 = setToken (mondayAccessToken s1) s1;
                            s3 = s2\<lparr>MONDAY_ACCESS_TOKEN := Some (mondayAccessToken s2)\<rparr>;
                            saved = saveToken (store s3) wr_ok now now' ''monday'' t
                                      (or_null_str (data_refresh_token d))
                                      (or_null_num (data_expires_in d));
                            s4 = s3\<lparr>store := snd saved\<rparr>
                        in (send 200 ''OAuth complete. Server has the monday access token. You can now call /monday/create-webhook?board=<BOARD_ID>'',
                            [token_request cfg c], s4))))"

subsection \<open>Registering the webhook\<close>

text \<open>
  What \<^verbatim>\<open>/monday/create-webhook\<close> reads of its request: \<^verbatim>\<open>req.query.board\<close>, the header
  \<^verbatim>\<open>x-forwarded-proto\<close>, \<^verbatim>\<open>req.protocol\<close> and \<^verbatim>\<open>req.get('host')\<close>.
\<close>

record request =
  board :: "string option"
  x_forwarded_proto :: "string option"
  protocol :: string
  host :: "string option"

text \<open>\<^verbatim>\<open>a || b\<close> on two values that are a string or \<^verbatim>\<open>undefined\<close>.\<close>

definition or_str :: "string option \<Rightarrow> string option \<Rightarrow> string option" where
  "or_str a b = (if truthy_str a then a else b)"

text \<open>A value in a template literal: \<^verbatim>\<open>undefined\<close> prints as that word.\<close>

definition template :: "string option \<Rightarrow> string" where
  "template v = (case v of None \<Rightarrow> ''undefined'' | Some x \<Rightarrow> x)"

text \<open>\<^verbatim>\<open>s.replace(/\/$/, '')\<close>: one slash at the end is removed.\<close>

definition strip_slash :: "string \<Rightarrow> string" where
  "strip_slash x = (if x \<noteq> [] \<and> last x = CHR ''/'' then butlast x else x)"

definition getPublicUrl :: "config \<Rightarrow> request \<Rightarrow> string" where
  "getPublicUrl cfg req =
     (let publicEnv = or_str (or_str (MONDAY_PUBLIC_URL cfg) (PUBLIC_URL cfg)) (NGROK_URL cfg)
      in if truthy_str publicEnv \<and> take 4 (the publicEnv) = ''http''
         then strip_slash (the publicEnv)
         else template (or_str (x_forwarded_proto req) (Some (protocol req)))
                @ ''://'' @ template (host req))"

text \<open>
  Token resolution, lines 104-115 of \<^verbatim>\<open>server.js\<close>: the cached token, and only when that is
  falsy the store; a read that throws is caught and leaves the token as it was. A token
  found in the store is written to the variable and to \<^verbatim>\<open>lib/monday.js\<close>.
\<close>

definition resolve_token :: "server \<Rightarrow> bool \<Rightarrow> string option \<times> server" where
  "resolve_token s rd_ok =
     (let token = currentToken s
      in if truthy_str token then (token, s)
         else (case getToken (store s) rd_ok ''monday'' of
                 Inl e \<Rightarrow> (token, s)
               | Inr found \<Rightarrow>
                   if truthy_str found
                   then (found, setToken (the found) (s\<lparr>mondayAccessToken := the found\<rparr>))
                   else (found, s)))"

text \<open>The template literal of lines 122-132 of \<^verbatim>\<open>server.js\<close>.\<close>

definition mutation :: "string \<Rightarrow> string \<Rightarrow> string" where
  "mutation boardId webhookUrl =
     [CHR 0x0A] @ ''    mutation {'' @
     [CHR 0x0A] @ ''      create_webhook ('' @
     [CHR 0x0A] @ ''        board_id: '' @ boardId @ '','' @
     [CHR 0x0A] @ ''        url: '' @ [CHR 0x22] @ webhookUrl @ [CHR 0x22] @ '','' @
     [CHR 0x0A] @ ''        event: change_column_value'' @
     [CHR 0x0A] @ ''      ) {'' @
     [CHR 0x0A] @ ''        id'' @
     [CHR 0x0A] @ ''      }'' @
     [CHR 0x0A] @ ''    }'' @
     [CHR 0x0A] @ ''  ''"

text \<open>
  \<^verbatim>\<open>app.get('/monday/create-webhook')\<close> of \<^verbatim>\<open>server.js\<close>, lines 99-147. \<open>reply\<close> is what
  \<^verbatim>\<open>axios.post\<close> to the provider gives: \<open>Inl\<close> when it throws, \<open>Inr\<close> the body.
\<close>

definition create_webhook ::
  "config \<Rightarrow> server \<Rightarrow> request \<Rightarrow> bool \<Rightarrow> error + json
     \<Rightarrow> response \<times> http_call list \<times> server" where
  "create_webhook cfg s req rd_ok reply =
     (if \<not> truthy_str (board req)
      then (send 400 ''Missing ?board=<BOARD_ID> query param.'', [], s)
      else
        let boardId = the (board req);
            resolved = resolve_token s rd_ok;
            token = fst resolved;
            s' = snd resolved
        in if \<not> truthy_str token
           then (send 400 ''No monday OAuth token available. Please run /monday/oauth first.'',
                 [], s')
           else
             let publicUrl = getPublicUrl cfg req;
                 webhookUrl = strip_slash publicUrl @ ''/webhook/monday'';
                 call = \<lparr>url = ''https://api.monday.com/v2'',
                         data = JObj [(''query'', JStr (mutation boardId webhookUrl))],
                         headers = [(''Authorization'', the token),
                                    (''Content-Type'', ''application/json'')]\<rparr>
             in (case reply of
                   Inr d \<Rightarrow> (json_reply d, [call], s')
                 | Inl e \<Rightarrow> (send 500 ''Failed to create webhook. See server logs.'',
                             [call], s')))"

subsection \<open>The variant that passes variables (\<^verbatim>\<open>src/unnamed/part_001\<close>)\<close>

text \<open>
  The double nearest to an integer (ties to the even mantissa): exact below \<open>2 ^ 53\<close>,
  rounded to 53 significant bits above, and infinite from \<open>2 ^ 1024\<close> on.
\<close>

fun bits :: "nat \<Rightarrow> nat" where
  "bits n = (if n = 0 then 0 else Suc (bits (n div 2)))"

declare bits.simps [simp del]

definition to_double :: "int \<Rightarrow> jsnum" where
  "to_double v =
     (let a = nat \<bar>v\<bar>
      in if a < 2 ^ 53 then Fin (of_int v)
         else
           let k = bits a - 53;
               m = a div 2 ^ k;
               r = a mod 2 ^ k;
               m' = (if 2 ^ k < 2 * r \<or> (2 * r = 2 ^ k \<and> odd m) then m + 1 else m);
               w = m' * 2 ^ k
           in if 2 ^ 1024 \<le> w then (if v < 0 then NegInf else PosInf)
              else Fin (of_int (if v < 0 then - int w else int w)))"

text \<open>
  \<^verbatim>\<open>parseInt(s, 10)\<close>: white space is skipped, a sign is read, then the digits up to the
  first character that is none; the result is NaN without a digit, and the double nearest
  to the number read otherwise. Strings are read as Latin-1.
\<close>

definition is_space :: "char \<Rightarrow> bool" where
  "is_space c = (c \<in> set [CHR 0x09, CHR 0x0A, CHR 0x0B, CHR 0x0C, CHR 0x0D, CHR 0x20, CHR 0xA0])"

definition is_digit :: "char \<Rightarrow> bool" where
  "is_digit c = (c \<in> set ''0123456789'')"

fun digits_value :: "int \<Rightarrow> string \<Rightarrow> int" where
  "digits_value acc [] = acc"
| "digits_value acc (c # cs) = digits_value (acc * 10 + (of_char c - 48)) cs"

definition parseInt :: "string option \<Rightarrow> jsnum" where
  "parseInt v =
     (let t = dropWhile is_space (template v);
          negative = (t \<noteq> [] \<and> hd t = CHR ''-'');
          u = (if t \<noteq> [] \<and> (hd t = CHR ''-'' \<or> hd t = CHR ''+'') then tl t else t);
          ds = takeWhile is_digit u
      in if ds = [] then NaN
         else to_double (if negative then - digits_value 0 ds else digits_value 0 ds))"

text \<open>
  Token resolution, lines 100-112 of \<^verbatim>\<open>part_001\<close>: as in \<^verbatim>\<open>server.js\<close>, and a token
  found in the store is written to the environment setting too.
\<close>

definition resolve_token_env :: "server \<Rightarrow> bool \<Rightarrow> string option \<times> server" where
  "resolve_token_env s rd_ok =
     (let token = currentToken s
      in if truthy_str token then (token, s)
         else (case getToken (store s) rd_ok ''monday'' of
                 Inl e \<Rightarrow> (token, s)
               | Inr found \<Rightarrow>
                   if truthy_str found
                   then (found, (setToken (the found) (s\<lparr>mondayAccessToken := the found\<rparr>))
                                  \<lparr>MONDAY_ACCESS_TOKEN := found\<rparr>)
                   else (found, s)))"

text \<open>The template literal of lines 124-130 of \<^verbatim>\<open>part_001\<close>, which has no placeholder.\<close>

definition query :: string where
  "query =
     [CHR 0x0A] @ ''    mutation CreateWebhook($boardId: Int!, $url: String!) {'' @
     [CHR 0x0A] @ ''      create_webhook(board_id: $boardId, url: $url, event: change_column_value) {'' @
     [CHR 0x0A] @ ''        id'' @
     [CHR 0x0A] @ ''      }'' @
     [CHR 0x0A] @ ''    }'' @
     [CHR 0x0A] @ ''  ''"

text \<open>\<^verbatim>\<open>app.get('/monday/create-webhook')\<close> of \<^verbatim>\<open>part_001\<close>, lines 95-159.\<close>

definition create_webhook_variables ::
  "config \<Rightarrow> server \<Rightarrow> request \<Rightarrow> bool \<Rightarrow> error + json
     \<Rightarrow> response \<times> http_call list \<times> server" where
  "create_webhook_variables cfg s req rd_ok reply =
     (let boardId = parseInt (board req)
      in if \<not> truthy (JNum boardId)
         then (send 400 ''Missing or invalid board ID.'', [], s)
         else
            let resolved = resolve_token_env s rd_ok;
                token = fst resolved;
                s' = snd resolved
            in if \<not> truthy_str token
               then (send 400 ''No monday token available. Run /monday/oauth first.'', [], s')
               else
                 let publicUrl = getPublicUrl cfg req;
                     webhookUrl = publicUrl @ ''/webhook/monday'';
                     call = \<lparr>url = ''https://api.monday.com/v2'',
                             data = JObj [(''query'', JStr query),
                                          (''variables'',
                                           JObj [(''boardId'', JNum boardId),
                                                 (''url'', JStr webhookUrl)])],
                             headers = [(''Authorization'', the token),
                                        (''Content-Type'', ''application/json'')]\<rparr>
                 in (case reply of
                       Inr d \<Rightarrow> (json_reply d, [call], s')
                     | Inl e \<Rightarrow> (send 500 ''Webhook creation failed. Check Render logs.'',
                                 [call], s')))"

subsection \<open>Start of the process\<close>

text \<open>
  How \<^verbatim>\<open>start()\<close> ends: \<^verbatim>\<open>process.exit(1)\<close>, or \<^verbatim>\<open>app.listen\<close> called in the given state,
  from which on requests are served.
\<close>

datatype outcome = Exit nat | Listening server

text \<open>
  The state after the modules are loaded. \<^verbatim>\<open>server.js\<close> has
  \<^verbatim>\<open>let mondayAccessToken = process.env.MONDAY_ACCESS_TOKEN || ''\<close>, the two variants have
  \<^verbatim>\<open>let mondayAccessToken = ''\<close>; \<^verbatim>\<open>lib/monday.js\<close> has
  \<^verbatim>\<open>let oauthToken = process.env.MONDAY_ACCESS_TOKEN || ''\<close>; \<^verbatim>\<open>db.js\<close> has no handle yet.
\<close>

definition loaded :: "string option \<Rightarrow> (string \<rightharpoonup> token_doc) \<Rightarrow> server" where
  "loaded env coll =
     \<lparr>mondayAccessToken = (if truthy_str env then the env else []),
      MONDAY_ACCESS_TOKEN = env,
      oauthToken = (if truthy_str env then the env else []),
      store = \<lparr>db = False, tokens = coll\<rparr>\<rparr>"

definition loaded_variant :: "string option \<Rightarrow> (string \<rightharpoonup> token_doc) \<Rightarrow> server" where
  "loaded_variant env coll =
     \<lparr>mondayAccessToken = [],
      MONDAY_ACCESS_TOKEN = env,
      oauthToken = (if truthy_str env then the env else []),
      store = \<lparr>db = False, tokens = coll\<rparr>\<rparr>"

text \<open>\<^verbatim>\<open>start()\<close> of \<^verbatim>\<open>server.js\<close>, lines 168-176: connect, then listen.\<close>

definition start :: "config \<Rightarrow> server \<Rightarrow> bool \<Rightarrow> outcome" where
  "start cfg s conn_ok =
     (case connectDB cfg conn_ok (store s) of
        (Inl e, st) \<Rightarrow> Exit 1
      | (Inr u, st) \<Rightarrow> Listening (s\<lparr>store := st\<rparr>))"

text \<open>
  \<^verbatim>\<open>start()\<close> of \<^verbatim>\<open>part_000\<close> (lines 198-221) and of \<^verbatim>\<open>part_001\<close> (lines 180-203):
  connect, read the token of \<^verbatim>\<open>'monday'\<close>, and when one is found write it to the variable, to
  \<^verbatim>\<open>lib/monday.js\<close> and to the environment setting; then listen. A connection or a read that
  throws ends the process.
\<close>

definition start_variant :: "config \<Rightarrow> server \<Rightarrow> bool \<Rightarrow> bool \<Rightarrow> outcome" where
  "start_variant cfg s conn_ok rd_ok =
     (case connectDB cfg conn_ok (store s) of
        (Inl e, st) \<Rightarrow> Exit 1
      | (Inr u, st) \<Rightarrow>
          (case getToken st rd_ok ''monday'' of
             Inl e \<Rightarrow> Exit 1
           | Inr saved \<Rightarrow>
               if truthy_str saved
               then Listening ((setToken (the saved)
                                  (s\<lparr>store := st, mondayAccessToken := the saved\<rparr>))
                                 \<lparr>MONDAY_ACCESS_TOKEN := saved\<rparr>)
               else Listening (s\<lparr>store := st\<rparr>)))"

subsection \<open>Concrete inputs\<close>

text \<open>A configuration with a store and a public address, and a stored credential.\<close>

definition example_config :: config where
  "example_config =
     \<lparr>CLIENT_ID = ''id'', CLIENT_SECRET = ''secret'',
      REDIRECT_URL = ''http://localhost:3000/monday/oauth/callback'',
      MONDAY_PUBLIC_URL = Some ''https://relay.example.com'', PUBLIC_URL = None,
      NGROK_URL = None, MONGODB_URI = Some ''mongodb://localhost/test''\<rparr>"

definition example_doc :: token_doc where
  "example_doc =
     \<lparr>service = ''monday'', access_token = ''tok123'', refresh_token = None,
      expires_at = None, updated_at = 1000\<rparr>"

definition example_request :: "string \<Rightarrow> request" where
  "example_request b =
     \<lparr>board = Some b, x_forwarded_proto = None, protocol = ''http'',
      host = Some ''localhost:3000''\<rparr>"

section \<open>Properties\<close>

subsection \<open>Facts shared by the proofs\<close>

lemma get_prop_truthy: "get_prop b k = Some c \<Longrightarrow> truthy b"
  by (cases b) simp_all

lemma getToken_truthy: "getToken st rd_ok svc = Inr (Some t) \<Longrightarrow> t \<noteq> []"
  by (auto simp: getToken_def split: if_splits option.splits)

subsection \<open>The webhook receiver\<close>

text \<open>
  C1 on \<^verbatim>\<open>server.js\<close>. The provider's handshake body \<^verbatim>\<open>{"challenge":"abc"}\<close> contains the
  member \<^verbatim>\<open>challenge\<close>; the receiver of \<^verbatim>\<open>server.js\<close> answers it with status 200 and the
  plain text \<^verbatim>\<open>ok\<close>, not with the JSON object that echoes the member, which is what the
  receiver of \<^verbatim>\<open>part_000\<close> answers to the same body.
\<close>

theorem webhook_monday_ignores_challenge:
  "get_prop (JObj [(''challenge'', JStr ''abc'')]) ''challenge'' = Some (JStr ''abc'')
   \<and> webhook_monday (Some (JObj [(''challenge'', JStr ''abc'')]))
       = \<lparr>status = 200, payload = Text ''ok''\<rparr>
   \<and> webhook_monday (Some (JObj [(''challenge'', JStr ''abc'')]))
       \<noteq> \<lparr>status = 200, payload = Json (JObj [(''challenge'', JStr ''abc'')])\<rparr>
   \<and> webhook_monday_challenge (Some (JObj [(''challenge'', JStr ''abc'')]))
       = \<lparr>status = 200, payload = Json (JObj [(''challenge'', JStr ''abc'')])\<rparr>"
  by (simp add: webhook_monday_def webhook_monday_challenge_def send_def json_reply_def)

text \<open>
  The receiver of \<^verbatim>\<open>part_000\<close> does what \<^verbatim>\<open>server.js\<close> leaves out. It answers a body whose
  \<^verbatim>\<open>challenge\<close> member is truthy with status 200 and the JSON object that holds that
  member and nothing else; every other body (no such member, a falsy one, or no body at
  all) gets status 200 and the plain text \<^verbatim>\<open>ok\<close>.
\<close>

lemma webhook_challenge_echo:
  "(get_prop b ''challenge'' = Some c \<and> truthy c \<longrightarrow>
      webhook_monday_challenge (Some b)
        = \<lparr>status = 200, payload = Json (JObj [(''challenge'', c)])\<rparr>)
   \<and> (get_prop b ''challenge'' = None \<or> (get_prop b ''challenge'' = Some c \<and> \<not> truthy c) \<longrightarrow>
      webhook_monday_challenge (Some b) = \<lparr>status = 200, payload = Text ''ok''\<rparr>)
   \<and> webhook_monday_challenge None = \<lparr>status = 200, payload = Text ''ok''\<rparr>"
  by (auto simp: webhook_monday_challenge_def send_def json_reply_def get_prop_truthy)

lemma webhook_challenge_echo_example:
  "webhook_monday_challenge (Some (JObj [(''challenge'', JStr ''abc'')]))
     = \<lparr>status = 200, payload = Json (JObj [(''challenge'', JStr ''abc'')])\<rparr>
   \<and> webhook_monday_challenge (Some (JObj [(''event'', JObj [])]))
     = \<lparr>status = 200, payload = Text ''ok''\<rparr>
   \<and> webhook_monday_challenge (Some (JObj [(''challenge'', JStr [])]))
     = \<lparr>status = 200, payload = Text ''ok''\<rparr>"
  using webhook_challenge_echo [of "JObj [(''challenge'', JStr ''abc'')]" "JStr ''abc''"]
        webhook_challenge_echo [of "JObj [(''event'', JObj [])]" JNull]
        webhook_challenge_echo [of "JObj [(''challenge'', JStr [])]" "JStr []"]
  by simp

text \<open>The receiver of \<^verbatim>\<open>server.js\<close> gives the same answer to every body.\<close>

lemma webhook_monday_plain:
  "webhook_monday req_body = \<lparr>status = 200, payload = Text ''ok''\<rparr>"
  by (simp add: webhook_monday_def send_def)

subsection \<open>The OAuth exchange\<close>

text \<open>
  C2. When the provider's token response holds a non-empty \<^verbatim>\<open>access_token\<close> \<open>t\<close>, the
  callback answers 200 with the completion message, and afterwards the cached token read
  (the variable, then the environment setting) gives \<open>t\<close>; this holds whether the write to
  the store succeeds (\<open>wr_ok\<close>) or throws, and the answer does not depend on it.
\<close>

theorem oauth_success_survives_store_failure:
  assumes "c \<noteq> []" and "data_access_token d = Some t" and "t \<noteq> []"
  shows "fst (oauth_callback cfg s (Some c) (Inr (Some d)) wr_ok now now')
           = \<lparr>status = 200,
              payload = Text ''OAuth complete. Server has the monday access token. You can now call /monday/create-webhook?board=<BOARD_ID>''\<rparr>
         \<and> currentToken (snd (snd (oauth_callback cfg s (Some c) (Inr (Some d)) wr_ok now now')))
             = Some t
         \<and> mondayAccessToken (snd (snd (oauth_callback cfg s (Some c) (Inr (Some d)) wr_ok now now')))
             = t
         \<and> MONDAY_ACCESS_TOKEN (snd (snd (oauth_callback cfg s (Some c) (Inr (Some d)) wr_ok now now')))
             = Some t"
  using assms
  by (simp add: oauth_callback_def Let_def setToken_def currentToken_def js_or_def send_def)

theorem oauth_success_survives_store_failure_witness:
  "status (fst (oauth_callback example_config
                  ((loaded None Map.empty)\<lparr>store := \<lparr>db = True, tokens = Map.empty\<rparr>\<rparr>)
                  (Some ''c0de'')
                  (Inr (Some \<lparr>data_access_token = Some ''tok123'', data_refresh_token = None,
                              data_expires_in = Some 3600\<rparr>))
                  False 1000 1001)) = 200
   \<and> currentToken (snd (snd (oauth_callback example_config
                  ((loaded None Map.empty)\<lparr>store := \<lparr>db = True, tokens = Map.empty\<rparr>\<rparr>)
                  (Some ''c0de'')
                  (Inr (Some \<lparr>data_access_token = Some ''tok123'', data_refresh_token = None,
                              data_expires_in = Some 3600\<rparr>))
                  False 1000 1001))) = Some ''tok123''"
  using oauth_success_survives_store_failure
          [where c = "''c0de''" and t = "''tok123''" and cfg = example_config
             and d = "\<lparr>data_access_token = Some ''tok123'', data_refresh_token = None,
                       data_expires_in = Some 3600\<rparr>"
             and s = "(loaded None Map.empty)\<lparr>store := \<lparr>db = True, tokens = Map.empty\<rparr>\<rparr>"
             and wr_ok = False and now = 1000 and now' = 1001]
  by simp

text \<open>
  C3. When the provider's token response has no body or no non-empty \<^verbatim>\<open>access_token\<close>,
  the callback answers 500 and the whole state (the variable, the environment setting,
  the token of the library and the store) is what it was.
\<close>

theorem oauth_missing_token_unchanged:
  assumes "c \<noteq> []"
    and "reply = Inr None \<or> (\<exists>d. reply = Inr (Some d) \<and> \<not> truthy_str (data_access_token d))"
  shows "status (fst (oauth_callback cfg s (Some c) reply wr_ok now now')) = 500
         \<and> snd (snd (oauth_callback cfg s (Some c) reply wr_ok now now')) = s"
  using assms
  by (auto simp: oauth_callback_def send_def split: option.splits)

theorem oauth_missing_token_unchanged_witness:
  "status (fst (oauth_callback example_config
                  ((loaded None Map.empty)\<lparr>store := \<lparr>db = True, tokens = Map.empty\<rparr>\<rparr>)
                  (Some ''c0de'')
                  (Inr (Some \<lparr>data_access_token = None, data_refresh_token = None,
                              data_expires_in = None\<rparr>))
                  True 1000 1001)) = 500
   \<and> snd (snd (oauth_callback example_config
                  ((loaded None Map.empty)\<lparr>store := \<lparr>db = True, tokens = Map.empty\<rparr>\<rparr>)
                  (Some ''c0de'')
                  (Inr (Some \<lparr>data_access_token = None, data_refresh_token = None,
                              data_expires_in = None\<rparr>))
                  True 1000 1001))
       = (loaded None Map.empty)\<lparr>store := \<lparr>db = True, tokens = Map.empty\<rparr>\<rparr>"
  using oauth_missing_token_unchanged
          [where c = "''c0de''" and cfg = example_config
             and reply = "Inr (Some \<lparr>data_access_token = None, data_refresh_token = None,
                                    data_expires_in = None\<rparr>)"
             and s = "(loaded None Map.empty)\<lparr>store := \<lparr>db = True, tokens = Map.empty\<rparr>\<rparr>"
             and wr_ok = True and now = 1000 and now' = 1001]
  by simp

subsection \<open>Token resolution and webhook registration\<close>

text \<open>
  C4. With a board id in the request, an empty variable, no environment setting (or an
  empty one) and a store lookup that finds no token (or throws), the registration answers
  400 with the message that asks for the OAuth flow, makes no call to the provider and
  leaves the state as it was.
\<close>

theorem create_webhook_not_authorized:
  assumes "truthy_str (board req)"
    and "mondayAccessToken s = []"
    and "\<not> truthy_str (MONDAY_ACCESS_TOKEN s)"
    and "getToken (store s) rd_ok ''monday'' = Inr None
         \<or> getToken (store s) rd_ok ''monday'' = Inl e"
  shows "create_webhook cfg s req rd_ok reply
           = (send 400 ''No monday OAuth token available. Please run /monday/oauth first.'', [], s)"
  using assms
  by (auto simp: create_webhook_def resolve_token_def currentToken_def js_or_def Let_def)

theorem create_webhook_not_authorized_witness:
  "create_webhook example_config
     ((loaded None Map.empty)\<lparr>store := \<lparr>db = True, tokens = Map.empty\<rparr>\<rparr>)
     (example_request ''123456789'') True (Inr JNull)
   = (\<lparr>status = 400,
       payload = Text ''No monday OAuth token available. Please run /monday/oauth first.''\<rparr>,
      [], (loaded None Map.empty)\<lparr>store := \<lparr>db = True, tokens = Map.empty\<rparr>\<rparr>)"
  using create_webhook_not_authorized
          [where req = "example_request ''123456789''" and cfg = example_config
             and s = "(loaded None Map.empty)\<lparr>store := \<lparr>db = True, tokens = Map.empty\<rparr>\<rparr>"
             and rd_ok = True and reply = "Inr JNull"]
  by (simp add: example_request_def loaded_def getToken_def send_def)

text \<open>
  C5. The token is resolved in the order variable, environment setting, store, and the
  first non-empty value is taken. A non-empty variable wins. With an empty variable the
  cached read is the environment setting, and a non-empty setting is the resolved token.
  With both empty the cached read is falsy, and only token resolution goes on to the
  store and takes what the lookup gives. The cached read does not depend on the store.
\<close>

theorem token_precedence:
  "(mondayAccessToken s \<noteq> [] \<longrightarrow>
      currentToken s = Some (mondayAccessToken s)
      \<and> fst (resolve_token s rd_ok) = Some (mondayAccessToken s))
   \<and> (mondayAccessToken s = [] \<longrightarrow> currentToken s = MONDAY_ACCESS_TOKEN s)
   \<and> (mondayAccessToken s = [] \<and> truthy_str (MONDAY_ACCESS_TOKEN s) \<longrightarrow>
        fst (resolve_token s rd_ok) = MONDAY_ACCESS_TOKEN s)
   \<and> (mondayAccessToken s = [] \<and> \<not> truthy_str (MONDAY_ACCESS_TOKEN s) \<longrightarrow>
        \<not> truthy_str (currentToken s)
        \<and> (getToken (store s) rd_ok ''monday'' = Inr found \<longrightarrow>
             fst (resolve_token s rd_ok) = found))
   \<and> currentToken (s\<lparr>store := st\<rparr>) = currentToken s"
  by (auto simp: resolve_token_def currentToken_def js_or_def Let_def)

theorem token_precedence_witness:
  "currentToken \<lparr>mondayAccessToken = [], MONDAY_ACCESS_TOKEN = Some ''envtok'', oauthToken = [],
                 store = \<lparr>db = True, tokens = [''monday'' \<mapsto> example_doc]\<rparr>\<rparr> = Some ''envtok''
   \<and> fst (resolve_token \<lparr>mondayAccessToken = [], MONDAY_ACCESS_TOKEN = Some ''envtok'',
                          oauthToken = [],
                          store = \<lparr>db = True, tokens = [''monday'' \<mapsto> example_doc]\<rparr>\<rparr> True)
       = Some ''envtok''
   \<and> \<not> truthy_str (currentToken \<lparr>mondayAccessToken = [], MONDAY_ACCESS_TOKEN = None,
                 oauthToken = [],
                 store = \<lparr>db = True, tokens = [''monday'' \<mapsto> example_doc]\<rparr>\<rparr>)
   \<and> fst (resolve_token \<lparr>mondayAccessToken = [], MONDAY_ACCESS_TOKEN = None,
                          oauthToken = [],
                          store = \<lparr>db = True, tokens = [''monday'' \<mapsto> example_doc]\<rparr>\<rparr> True)
       = Some ''tok123''"
  using token_precedence
          [where s = "\<lparr>mondayAccessToken = [], MONDAY_ACCESS_TOKEN = Some ''envtok'',
                       oauthToken = [],
                       store = \<lparr>db = True, tokens = [''monday'' \<mapsto> example_doc]\<rparr>\<rparr>"
             and rd_ok = True]
        token_precedence
          [where s = "\<lparr>mondayAccessToken = [], MONDAY_ACCESS_TOKEN = None,
                       oauthToken = [],
                       store = \<lparr>db = True, tokens = [''monday'' \<mapsto> example_doc]\<rparr>\<rparr>"
             and rd_ok = True and found = "Some ''tok123''"]
  by (simp add: getToken_def example_doc_def)

subsection \<open>The token store\<close>

text \<open>
  C6, as the code has it. With a connected store and driver calls that succeed,
  \<^verbatim>\<open>saveToken\<close> of a non-empty token followed by \<^verbatim>\<open>getToken\<close> of the same service
  gives that token, whatever the refresh token, the expiry and the earlier content of the
  collection are. Without a connection \<^verbatim>\<open>saveToken\<close> returns null and changes nothing,
  and \<^verbatim>\<open>getToken\<close> after it gives the absent value, whatever the driver would do.
\<close>

theorem put_then_get:
  "(db st \<and> tok \<noteq> [] \<longrightarrow>
      getToken (snd (saveToken st True now now' svc tok refresh expires_in)) True svc
        = Inr (Some tok))
   \<and> (\<not> db st \<longrightarrow>
      saveToken st wr_ok now now' svc tok refresh expires_in = (Inr None, st)
      \<and> getToken (snd (saveToken st wr_ok now now' svc tok refresh expires_in)) rd_ok svc
          = Inr None)"
  by (simp add: saveToken_def getToken_def Let_def)

theorem put_then_get_witness:
  "getToken (snd (saveToken \<lparr>db = True, tokens = [''monday'' \<mapsto> example_doc]\<rparr> True 1000 1001
                    ''monday'' ''tok456'' (Some ''r1'') (Some 3600))) True ''monday''
     = Inr (Some ''tok456'')
   \<and> saveToken \<lparr>db = False, tokens = [''monday'' \<mapsto> example_doc]\<rparr> True 1000 1001
                    ''monday'' ''tok456'' (Some ''r1'') (Some 3600)
     = (Inr None, \<lparr>db = False, tokens = [''monday'' \<mapsto> example_doc]\<rparr>)
   \<and> getToken (snd (saveToken \<lparr>db = False, tokens = [''monday'' \<mapsto> example_doc]\<rparr> True 1000 1001
                    ''monday'' ''tok456'' (Some ''r1'') (Some 3600))) True ''monday''
     = Inr None"
  using put_then_get
          [where st = "\<lparr>db = True, tokens = [''monday'' \<mapsto> example_doc]\<rparr>"
             and tok = "''tok456''" and now = 1000 and now' = 1001 and svc = "''monday''"
             and refresh = "Some ''r1''" and expires_in = "Some 3600"]
        put_then_get
          [where st = "\<lparr>db = False, tokens = [''monday'' \<mapsto> example_doc]\<rparr>"
             and tok = "''tok456''" and now = 1000 and now' = 1001 and svc = "''monday''"
             and refresh = "Some ''r1''" and expires_in = "Some 3600"
             and wr_ok = True and rd_ok = True]
  by (simp add: getToken_def)

text \<open>
  Without a connection both operations do nothing: the token that was put is not the one
  that is read back.
\<close>

theorem put_then_get_unconnected_counterexample:
  "fst (saveToken \<lparr>db = False, tokens = Map.empty\<rparr> True 1000 1001
          ''monday'' ''tok123'' None (Some 3600)) = Inr None
   \<and> getToken (snd (saveToken \<lparr>db = False, tokens = Map.empty\<rparr> True 1000 1001
                      ''monday'' ''tok123'' None (Some 3600))) True ''monday'' = Inr None
   \<and> getToken (snd (saveToken \<lparr>db = False, tokens = Map.empty\<rparr> True 1000 1001
                      ''monday'' ''tok123'' None (Some 3600))) True ''monday''
       \<noteq> Inr (Some ''tok123'')"
  by (simp add: saveToken_def getToken_def)

text \<open>
  C9, as the code has it. With a connected store and a write that succeeds, the document
  stored for the service has \<^verbatim>\<open>expires_at\<close> equal to the clock reading plus
  \<^verbatim>\<open>expires_in\<close> seconds (in milliseconds: \<open>now + expires_in * 1000\<close>) when \<^verbatim>\<open>expires_in\<close>
  is given, is not zero and that time is one a \<^verbatim>\<open>Date\<close> can hold (at most 8.64e15
  milliseconds from the epoch, as the clock reading itself is); it has no \<^verbatim>\<open>expires_at\<close>
  when \<^verbatim>\<open>expires_in\<close> is missing or zero.
\<close>

theorem saveToken_expires_at:
  assumes "db st" and "\<bar>now\<bar> \<le> 8640000000000000"
  shows "(expires_in = Some n \<and> n \<noteq> 0 \<and> \<bar>now + n * 1000\<bar> \<le> 8640000000000000 \<longrightarrow>
            map_option expires_at
              (tokens (snd (saveToken st True now now' svc tok refresh expires_in)) svc)
              = Some (Some (Date (now + n * 1000))))
         \<and> (expires_in = None \<or> expires_in = Some 0 \<longrightarrow>
            map_option expires_at
              (tokens (snd (saveToken st True now now' svc tok refresh expires_in)) svc)
              = Some None)"
  using assms by (auto simp: saveToken_def new_Date_def Let_def)

theorem saveToken_expires_at_witness:
  "map_option expires_at
     (tokens (snd (saveToken \<lparr>db = True, tokens = Map.empty\<rparr> True 1000 1001
                     ''monday'' ''tok123'' None (Some 3600))) ''monday'')
     = Some (Some (Date 3601000))
   \<and> map_option expires_at
     (tokens (snd (saveToken \<lparr>db = True, tokens = Map.empty\<rparr> True 1000 1001
                     ''monday'' ''tok123'' None None)) ''monday'')
     = Some None"
  using saveToken_expires_at
          [where st = "\<lparr>db = True, tokens = Map.empty\<rparr>" and expires_in = "Some 3600"
             and n = 3600 and now = 1000 and now' = 1001 and svc = "''monday''"
             and tok = "''tok123''" and refresh = None]
        saveToken_expires_at
          [where st = "\<lparr>db = True, tokens = Map.empty\<rparr>" and expires_in = None
             and n = 0 and now = 1000 and now' = 1001 and svc = "''monday''"
             and tok = "''tok123''" and refresh = None]
  by simp

text \<open>
  An \<^verbatim>\<open>expires_in\<close> of zero is given, and the stored document has no \<^verbatim>\<open>expires_at\<close>
  (not the clock reading plus zero).
\<close>

theorem saveToken_expires_zero_counterexample:
  "map_option expires_at
     (tokens (snd (saveToken \<lparr>db = True, tokens = Map.empty\<rparr> True 1000 1001
                     ''monday'' ''tok123'' None (Some 0))) ''monday'') = Some None
   \<and> map_option expires_at
     (tokens (snd (saveToken \<lparr>db = True, tokens = Map.empty\<rparr> True 1000 1001
                     ''monday'' ''tok123'' None (Some 0))) ''monday'')
       \<noteq> Some (Some (Date (1000 + 0 * 1000)))"
  by (simp add: saveToken_def Let_def)

text \<open>
  Beyond the range of a \<^verbatim>\<open>Date\<close> the document is built with the Invalid Date: an
  \<^verbatim>\<open>expires_in\<close> of 8640000000000 seconds at the clock reading 1000.
\<close>

lemma saveToken_expires_out_of_range:
  "map_option expires_at
     (tokens (snd (saveToken \<lparr>db = True, tokens = Map.empty\<rparr> True 1000 1001
                     ''monday'' ''tok123'' None (Some 8640000000000))) ''monday'')
     = Some (Some InvalidDate)"
  by (simp add: saveToken_def new_Date_def Let_def)

text \<open>
  C10. For a stored document whose \<^verbatim>\<open>access_token\<close> is the empty string, \<^verbatim>\<open>getToken\<close> of
  its service gives the absent value whenever the driver's lookup does not throw, and in
  every case it gives exactly what it gives when the collection has no document for that
  service.
\<close>

theorem getToken_empty_is_absent:
  assumes "tokens st svc = Some doc" and "access_token doc = []"
  shows "(rd_ok \<longrightarrow> getToken st rd_ok svc = Inr None)
         \<and> getToken st rd_ok svc = getToken (st\<lparr>tokens := (tokens st)(svc := None)\<rparr>) rd_ok svc"
  using assms by (simp add: getToken_def)

theorem getToken_empty_is_absent_witness:
  "getToken \<lparr>db = True, tokens = [''monday'' \<mapsto> example_doc\<lparr>access_token := []\<rparr>]\<rparr>
     True ''monday'' = Inr None
   \<and> getToken \<lparr>db = True, tokens = [''monday'' \<mapsto> example_doc\<lparr>access_token := []\<rparr>]\<rparr>
     True ''monday''
     = getToken \<lparr>db = True, tokens = Map.empty\<rparr> True ''monday''"
  using getToken_empty_is_absent
          [where st = "\<lparr>db = True, tokens = [''monday'' \<mapsto> example_doc\<lparr>access_token := []\<rparr>]\<rparr>"
             and svc = "''monday''" and doc = "example_doc\<lparr>access_token := []\<rparr>"
             and rd_ok = True]
  by (simp add: getToken_def)

subsection \<open>Start of the process\<close>

text \<open>
  C7 on \<^verbatim>\<open>server.js\<close>. The store is configured, the connection succeeds and the collection
  holds a token for \<^verbatim>\<open>'monday'\<close>; no setting is in the environment. \<^verbatim>\<open>start()\<close> reaches
  \<^verbatim>\<open>app.listen\<close> with the variable empty and the environment setting absent, although
  \<^verbatim>\<open>getToken('monday')\<close> would give the token in the state it listens in.
\<close>

theorem start_does_not_load_token:
  "start example_config (loaded None [''monday'' \<mapsto> example_doc]) True
     = Listening \<lparr>mondayAccessToken = [], MONDAY_ACCESS_TOKEN = None, oauthToken = [],
                   store = \<lparr>db = True, tokens = [''monday'' \<mapsto> example_doc]\<rparr>\<rparr>
   \<and> getToken \<lparr>db = True, tokens = [''monday'' \<mapsto> example_doc]\<rparr> True ''monday''
       = Inr (Some ''tok123'')"
  by (simp add: start_def loaded_def connectDB_def getToken_def example_config_def
        example_doc_def)

text \<open>
  The \<^verbatim>\<open>start()\<close> of the two variants does what \<^verbatim>\<open>server.js\<close> leaves out: after the
  connection, a token that the one lookup finds is in the variable, in the library and in
  the environment setting when \<^verbatim>\<open>app.listen\<close> is called.
\<close>

lemma start_variant_seeds:
  assumes "connectDB cfg conn_ok (store s) = (Inr u, st)"
    and "getToken st rd_ok ''monday'' = Inr (Some t)"
  shows "start_variant cfg s conn_ok rd_ok
           = Listening (s\<lparr>store := st, mondayAccessToken := t, oauthToken := t,
                          MONDAY_ACCESS_TOKEN := Some t\<rparr>)"
proof -
  have "t \<noteq> []"
    using assms(2) by (rule getToken_truthy)
  then show ?thesis
    using assms by (simp add: start_variant_def setToken_def)
qed

lemma start_variant_seeds_example:
  "start_variant example_config (loaded_variant None [''monday'' \<mapsto> example_doc]) True True
     = Listening \<lparr>mondayAccessToken = ''tok123'', MONDAY_ACCESS_TOKEN = Some ''tok123'',
                   oauthToken = ''tok123'',
                   store = \<lparr>db = True, tokens = [''monday'' \<mapsto> example_doc]\<rparr>\<rparr>"
  by (simp add: start_variant_def loaded_variant_def connectDB_def getToken_def setToken_def
        example_config_def example_doc_def)

subsection \<open>The query sent to the provider\<close>

text \<open>
  C8 on \<^verbatim>\<open>server.js\<close>. With a token in the environment, the registration for board
  \<^verbatim>\<open>1\<close> and the one for board \<^verbatim>\<open>2\<close> each send one call, and the two query texts differ:
  the board id (and the callback address) are written into the text of the query.
\<close>

theorem create_webhook_query_depends_on_board:
  "map (\<lambda>c. get_prop (data c) ''query'')
     (fst (snd (create_webhook example_config (loaded (Some ''tok123'') Map.empty)
                  (example_request ''1'') True (Inr JNull))))
     = [Some (JStr (mutation ''1'' ''https://relay.example.com/webhook/monday''))]
   \<and> map (\<lambda>c. get_prop (data c) ''query'')
     (fst (snd (create_webhook example_config (loaded (Some ''tok123'') Map.empty)
                  (example_request ''2'') True (Inr JNull))))
     = [Some (JStr (mutation ''2'' ''https://relay.example.com/webhook/monday''))]
   \<and> mutation ''1'' ''https://relay.example.com/webhook/monday''
       \<noteq> mutation ''2'' ''https://relay.example.com/webhook/monday''"
  by (simp add: create_webhook_def resolve_token_def currentToken_def js_or_def loaded_def
        getPublicUrl_def or_str_def strip_slash_def mutation_def Let_def
        example_config_def example_request_def)

text \<open>
  The variant that passes variables sends at most one call, and the query text of that
  call is the constant \<open>query\<close> for every request, state and configuration.
\<close>

lemma create_webhook_variables_query:
  "set (fst (snd (create_webhook_variables cfg s req rd_ok reply)))
     \<subseteq> {c. get_prop (data c) ''query'' = Some (JStr query)}
   \<and> length (fst (snd (create_webhook_variables cfg s req rd_ok reply))) \<le> 1"
  by (auto simp: create_webhook_variables_def Let_def split: option.splits sum.splits)

lemma create_webhook_variables_example:
  "map (\<lambda>c. (get_prop (data c) ''query'', get_prop (data c) ''variables''))
     (fst (snd (create_webhook_variables example_config (loaded_variant (Some ''tok123'') Map.empty)
                  (example_request ''2'') True (Inr JNull))))
     = [(Some (JStr query),
         Some (JObj [(''boardId'', JNum (Fin 2)),
                     (''url'', JStr ''https://relay.example.com/webhook/monday'')]))]"
  by (simp add: create_webhook_variables_def resolve_token_env_def currentToken_def js_or_def
        loaded_variant_def getPublicUrl_def or_str_def strip_slash_def parseInt_def
        to_double_def template_def is_space_def is_digit_def Let_def example_config_def
        example_request_def)

text \<open>A board id beyond \<open>2 ^ 53\<close> is read as the nearest double.\<close>

lemma parseInt_rounds:
  "parseInt (Some ''9007199254740993'') = Fin 9007199254740992
   \<and> parseInt (Some '' -42abc'') = Fin (- 42)
   \<and> parseInt (Some ''abc'') = NaN
   \<and> parseInt None = NaN"
  by (simp add: parseInt_def to_double_def template_def is_space_def is_digit_def Let_def
        bits.simps)

end
